theory Spec2Isabelle
  imports Main
begin

section \<open>QCoro generator coroutine (qcorogenerator.h)\<close>

text \<open>
  The header defines three classes: \<open>GeneratorPromise<T>\<close> (the promise object living
  in the coroutine frame), \<open>GeneratorIterator<T>\<close> (a coroutine handle or \<open>nullptr\<close>)
  and \<open>Generator<T>\<close> (the owner of the coroutine handle). The generator coroutine
  itself is user code; the C++ compiler wraps its body as
  \<^verbatim>\<open>
    co_await promise.initial_suspend();
    try { body } catch (...) { promise.unhandled_exception(); }
    co_await promise.final_suspend();
  \<close>
  and turns every \<open>co_yield v\<close> into \<open>co_await promise.yield_value(v)\<close>.
\<close>

subsection \<open>The generator coroutine's body\<close>

text \<open>
  What a generator coroutine does, as seen by its promise: \<open>co_yield v\<close> followed by the
  rest of the body, falling off the end (\<open>co_return\<close>), or an exception \<open>e\<close> leaving
  the body uncaught. The type \<open>'a\<close> is the template parameter \<open>T\<close>, the type \<open>'e\<close> the
  exception objects a \<open>std::exception_ptr\<close> may refer to.
\<close>

datatype ('a, 'e) body =
    Yield 'a "('a, 'e) body"
  | Return
  | Throw 'e

text \<open>\<open>std::suspend_always\<close> and \<open>std::suspend_never\<close>, the awaiters of the standard library.\<close>

datatype awaiter = suspend_always | suspend_never

subsection \<open>GeneratorPromise\<close>

text \<open>\<open>std::variant<std::monostate, T, std::exception_ptr>\<close>\<close>

datatype ('a, 'e) variant = Monostate | Value 'a | Exception 'e

text \<open>What can leave a function as a C++ exception here.\<close>

datatype 'e exn =
    Rethrown 'e  \<comment> \<open>\<open>std::rethrow_exception\<close> of the stored exception\<close>
  | bad_variant_access  \<comment> \<open>\<open>std::get<T>\<close> on a variant holding another alternative\<close>

record ('a, 'e) GeneratorPromise =
  mValue :: "('a, 'e) variant"

text \<open>A \<open>std::variant\<close> is default-constructed holding its first alternative.\<close>

definition new_promise :: "('a, 'e) GeneratorPromise" where
  "new_promise = \<lparr>mValue = Monostate\<rparr>"

definition initial_suspend ::
  "('a, 'e) GeneratorPromise \<Rightarrow> awaiter \<times> ('a, 'e) GeneratorPromise" where
  "initial_suspend p = (suspend_always, p)"

definition final_suspend ::
  "('a, 'e) GeneratorPromise \<Rightarrow> awaiter \<times> ('a, 'e) GeneratorPromise" where
  "final_suspend p = (suspend_always, p\<lparr>mValue := Monostate\<rparr>)"

definition unhandled_exception ::
  "'e \<Rightarrow> ('a, 'e) GeneratorPromise \<Rightarrow> ('a, 'e) GeneratorPromise" where
  "unhandled_exception current_exception p = p\<lparr>mValue := Exception current_exception\<rparr>"

definition yield_value ::
  "'a \<Rightarrow> ('a, 'e) GeneratorPromise \<Rightarrow> awaiter \<times> ('a, 'e) GeneratorPromise" where
  "yield_value from p = (suspend_always, p\<lparr>mValue := Value from\<rparr>)"

definition return_void :: "('a, 'e) GeneratorPromise \<Rightarrow> ('a, 'e) GeneratorPromise" where
  "return_void p = p"

text \<open>\<open>exception()\<close>: the stored \<open>exception_ptr\<close>, or the null one (\<open>None\<close>).\<close>

definition exception :: "('a, 'e) GeneratorPromise \<Rightarrow> 'e option" where
  "exception p = (case mValue p of Exception e \<Rightarrow> Some e | _ \<Rightarrow> None)"

text \<open>\<open>value()\<close>: \<open>std::get<T>(mValue)\<close>, which throws when \<open>mValue\<close> holds no \<open>T\<close>.\<close>

definition promise_value :: "('a, 'e) GeneratorPromise \<Rightarrow> 'e exn + 'a" where
  "promise_value p = (case mValue p of Value v \<Rightarrow> Inr v | _ \<Rightarrow> Inl bad_variant_access)"

definition finished :: "('a, 'e) GeneratorPromise \<Rightarrow> bool" where
  "finished p = (case mValue p of Monostate \<Rightarrow> True | _ \<Rightarrow> False)"

subsection \<open>Coroutine frames and handles\<close>

text \<open>
  A suspended coroutine is its promise and its resume point: either the part of the body
  still to run (at the initial suspend point or after a \<open>co_yield\<close>), or the final
  suspend point.
\<close>

datatype ('a, 'e) resume_point = Suspended "('a, 'e) body" | FinalSuspend

record ('a, 'e) frame =
  promise :: "('a, 'e) GeneratorPromise"
  point :: "('a, 'e) resume_point"

text \<open>
  Running the body from a resume point up to the next suspension. An awaiter that is
  \<open>suspend_never\<close> lets the coroutine run on; at the final suspend point that destroys
  the frame (\<open>None\<close>).
\<close>

definition final_await :: "('a, 'e) GeneratorPromise \<Rightarrow> ('a, 'e) frame option" where
  "final_await p =
     (let (a, p') = final_suspend p
      in if a = suspend_always then Some \<lparr>promise = p', point = FinalSuspend\<rparr> else None)"

fun run :: "('a, 'e) body \<Rightarrow> ('a, 'e) GeneratorPromise \<Rightarrow> ('a, 'e) frame option" where
  "run (Yield v k) p =
     (let (a, p') = yield_value v p
      in if a = suspend_always then Some \<lparr>promise = p', point = Suspended k\<rparr> else run k p')"
| "run Return p = final_await (return_void p)"
| "run (Throw e) p = final_await (unhandled_exception e p)"

text \<open>
  The store of coroutine frames: a \<open>std::coroutine_handle\<close> is the address of a frame
  (an index into the store); \<open>None\<close> at an address is a destroyed frame.
\<close>

type_synonym handle = nat
type_synonym ('a, 'e) store = "('a, 'e) frame option list"

datatype 'e error =
    UndefinedBehaviour  \<comment> \<open>null or dangling handle, resuming a finished coroutine\<close>
  | Terminate "'e exn"  \<comment> \<open>an exception leaves a \<open>noexcept\<close> function: \<open>std::terminate\<close>\<close>

definition lookup :: "('a, 'e) store \<Rightarrow> handle \<Rightarrow> ('a, 'e) frame option" where
  "lookup s h = (if h < length s then s ! h else None)"

text \<open>\<open>handle.promise()\<close>\<close>

definition handle_promise ::
  "handle \<Rightarrow> ('a, 'e) store \<Rightarrow> 'e error + ('a, 'e) GeneratorPromise" where
  "handle_promise h s =
     (case lookup s h of None \<Rightarrow> Inl UndefinedBehaviour | Some fr \<Rightarrow> Inr (promise fr))"

text \<open>\<open>handle.resume()\<close>\<close>

definition resume :: "handle \<Rightarrow> ('a, 'e) store \<Rightarrow> 'e error + ('a, 'e) store" where
  "resume h s =
     (case lookup s h of
        None \<Rightarrow> Inl UndefinedBehaviour
      | Some fr \<Rightarrow>
          (case point fr of
             FinalSuspend \<Rightarrow> Inl UndefinedBehaviour
           | Suspended b \<Rightarrow> Inr (s[h := run b (promise fr)])))"

text \<open>\<open>handle.destroy()\<close>\<close>

definition destroy :: "handle \<Rightarrow> ('a, 'e) store \<Rightarrow> 'e error + ('a, 'e) store" where
  "destroy h s =
     (case lookup s h of None \<Rightarrow> Inl UndefinedBehaviour | Some fr \<Rightarrow> Inr (s[h := None]))"

subsection \<open>GeneratorIterator and Generator\<close>

datatype GeneratorIterator = GeneratorIterator (mGeneratorCoroutine: "handle option")

datatype Generator = Generator (generatorCoroutine: handle)

text \<open>\<open>GeneratorPromise<T>::get_return_object()\<close>, for the promise of the frame at \<open>this\<close>.\<close>

definition get_return_object :: "handle \<Rightarrow> Generator" where
  "get_return_object this = Generator this"

text \<open>
  Calling a generator coroutine function with body \<open>b\<close>: the frame is allocated with a
  fresh promise, the return object is made, and \<open>initial_suspend()\<close> is awaited.
\<close>

definition invoke :: "('a, 'e) body \<Rightarrow> ('a, 'e) store \<Rightarrow> Generator \<times> ('a, 'e) store" where
  "invoke b s =
     (let this = length s;
          g = get_return_object this;
          (a, p) = initial_suspend new_promise
      in (g, s @ [if a = suspend_always then Some \<lparr>promise = p, point = Suspended b\<rparr>
                  else run b p]))"

text \<open>\<open>GeneratorIterator::operator++()\<close>\<close>

definition operator_inc ::
  "GeneratorIterator \<Rightarrow> ('a, 'e) store \<Rightarrow> 'e error + GeneratorIterator \<times> ('a, 'e) store" where
  "operator_inc it s =
     (case mGeneratorCoroutine it of
        None \<Rightarrow> Inr (it, s)
      | Some h \<Rightarrow>
          (case resume h s of
             Inl err \<Rightarrow> Inl err
           | Inr s' \<Rightarrow>
               (case handle_promise h s' of
                  Inl err \<Rightarrow> Inl err
                | Inr p \<Rightarrow> Inr (if finished p then GeneratorIterator None else it, s'))))"

text \<open>The body of \<open>GeneratorIterator::operator*()\<close>, which may throw.\<close>

definition operator_deref_body ::
  "GeneratorIterator \<Rightarrow> ('a, 'e) store \<Rightarrow> ('e error + 'e exn) + 'a" where
  "operator_deref_body it s =
     (case mGeneratorCoroutine it of
        None \<Rightarrow> Inl (Inl UndefinedBehaviour)
      | Some h \<Rightarrow>
          (case handle_promise h s of
             Inl err \<Rightarrow> Inl (Inl err)
           | Inr p \<Rightarrow>
               (case exception p of
                  Some e \<Rightarrow> Inl (Inr (Rethrown e))
                | None \<Rightarrow>
                    (case promise_value p of
                       Inl x \<Rightarrow> Inl (Inr x)
                     | Inr v \<Rightarrow> Inr v))))"

text \<open>A function declared \<open>noexcept\<close>: an exception leaving it calls \<open>std::terminate\<close>.\<close>

definition noexcept :: "('e error + 'e exn) + 'a \<Rightarrow> 'e error + 'a" where
  "noexcept r =
     (case r of
        Inl (Inl err) \<Rightarrow> Inl err
      | Inl (Inr x) \<Rightarrow> Inl (Terminate x)
      | Inr v \<Rightarrow> Inr v)"

text \<open>\<open>GeneratorIterator::operator*() const noexcept\<close>\<close>

definition operator_deref :: "GeneratorIterator \<Rightarrow> ('a, 'e) store \<Rightarrow> 'e error + 'a" where
  "operator_deref it s = noexcept (operator_deref_body it s)"

definition operator_eq :: "GeneratorIterator \<Rightarrow> GeneratorIterator \<Rightarrow> bool" where
  "operator_eq it other = (mGeneratorCoroutine it = mGeneratorCoroutine other)"

definition operator_neq :: "GeneratorIterator \<Rightarrow> GeneratorIterator \<Rightarrow> bool" where
  "operator_neq it other = (\<not> operator_eq it other)"

text \<open>\<open>Generator::begin()\<close>\<close>

definition Generator_begin ::
  "Generator \<Rightarrow> ('a, 'e) store \<Rightarrow> 'e error + GeneratorIterator \<times> ('a, 'e) store" where
  "Generator_begin g s =
     (case resume (generatorCoroutine g) s of
        Inl err \<Rightarrow> Inl err
      | Inr s' \<Rightarrow>
          (case handle_promise (generatorCoroutine g) s' of
             Inl err \<Rightarrow> Inl err
           | Inr p \<Rightarrow>
               Inr (if finished p then GeneratorIterator None
                    else GeneratorIterator (Some (generatorCoroutine g)), s')))"

text \<open>\<open>Generator::end()\<close>\<close>

definition Generator_end :: "Generator \<Rightarrow> ('a, 'e) store \<Rightarrow> GeneratorIterator \<times> ('a, 'e) store" where
  "Generator_end g s = (GeneratorIterator None, s)"

text \<open>\<open>Generator::~Generator()\<close>\<close>

definition Generator_destroy :: "Generator \<Rightarrow> ('a, 'e) store \<Rightarrow> 'e error + ('a, 'e) store" where
  "Generator_destroy g s = destroy (generatorCoroutine g) s"

subsection \<open>Traversing a generator\<close>

text \<open>
  The loop the iterator interface is made for:
  \<^verbatim>\<open>
    for (auto it = g.begin(); it != g.end(); ++it) { observe(*it); }
  \<close>
  \<open>traverse_from\<close> is the loop from a given iterator on, \<open>traverse\<close> the whole statement.
  The result is the list of the values observed, the iterator the loop stopped at and the
  store; an error of \<open>operator*\<close> or \<open>operator++\<close> ends the loop.
\<close>

text \<open>The number of suspension points an iterator's coroutine can still pass.\<close>

definition pending :: "GeneratorIterator \<Rightarrow> ('a, 'e) store \<Rightarrow> nat" where
  "pending it s =
     (case mGeneratorCoroutine it of
        None \<Rightarrow> 0
      | Some h \<Rightarrow>
          (case lookup s h of
             None \<Rightarrow> 0
           | Some fr \<Rightarrow> (case point fr of FinalSuspend \<Rightarrow> 0 | Suspended b \<Rightarrow> Suc (size b))))"

lemma run_shrinks:
  "run b p = Some fr \<Longrightarrow> point fr = Suspended k \<Longrightarrow> size k < size b"
  by (induction b arbitrary: p)
     (auto simp: yield_value_def final_await_def final_suspend_def)

lemma operator_inc_pending:
  assumes "operator_inc it s = Inr (it', s')" and "mGeneratorCoroutine it = Some h"
  shows "pending it' s' < pending it s"
proof -
  from assms obtain fr b fr' where
    fr: "lookup s h = Some fr" "point fr = Suspended b" "run b (promise fr) = Some fr'"
    and s': "s' = s[h := Some fr']"
    and it': "it' = (if finished (promise fr') then GeneratorIterator None else it)"
    by (auto simp: operator_inc_def resume_def handle_promise_def lookup_def
             split: option.splits sum.splits resume_point.splits if_splits)
  from fr(1) have "lookup s' h = Some fr'"
    by (auto simp: lookup_def s' split: if_splits)
  with fr assms(2) it' run_shrinks [OF fr(3)] show ?thesis
    by (auto simp: pending_def split: resume_point.splits)
qed

function traverse_from ::
  "GeneratorIterator \<Rightarrow> Generator \<Rightarrow> ('a, 'e) store \<Rightarrow>
     'e error + 'a list \<times> GeneratorIterator \<times> ('a, 'e) store" where
  "traverse_from it g s =
     (let (e, s0) = Generator_end g s
      in if operator_neq it e then
           (case operator_deref it s0 of
              Inl err \<Rightarrow> Inl err
            | Inr v \<Rightarrow>
                (case operator_inc it s0 of
                   Inl err \<Rightarrow> Inl err
                 | Inr (it', s') \<Rightarrow>
                     (case traverse_from it' g s' of
                        Inl err \<Rightarrow> Inl err
                      | Inr (vs, r) \<Rightarrow> Inr (v # vs, r))))
         else Inr ([], it, s0))"
  by pat_completeness auto

termination
  apply (relation "measure (\<lambda>(it, g, s). pending it s)")
   apply simp
  apply (auto simp: Generator_end_def operator_neq_def operator_eq_def
              dest: operator_inc_pending)
  done

declare traverse_from.simps [simp del]

definition traverse ::
  "Generator \<Rightarrow> ('a, 'e) store \<Rightarrow> 'e error + 'a list \<times> GeneratorIterator \<times> ('a, 'e) store" where
  "traverse g s =
     (case Generator_begin g s of
        Inl err \<Rightarrow> Inl err
      | Inr (it, s') \<Rightarrow> traverse_from it g s')"

text \<open>\<open>++it\<close>, \<open>n\<close> times in a row.\<close>

fun advance_times ::
  "nat \<Rightarrow> GeneratorIterator \<Rightarrow> ('a, 'e) store \<Rightarrow> 'e error + GeneratorIterator \<times> ('a, 'e) store" where
  "advance_times 0 it s = Inr (it, s)"
| "advance_times (Suc n) it s =
     (case operator_inc it s of
        Inl err \<Rightarrow> Inl err
      | Inr (it', s') \<Rightarrow> advance_times n it' s')"

subsection \<open>Vocabulary for the properties\<close>

text \<open>The values a body yields before it returns or throws.\<close>

fun yielded :: "('a, 'e) body \<Rightarrow> 'a list" where
  "yielded (Yield v k) = v # yielded k"
| "yielded Return = []"
| "yielded (Throw e) = []"

text \<open>The body \<open>co_yield v1; ...; co_yield vn;\<close> followed by \<open>k\<close>.\<close>

definition yields :: "'a list \<Rightarrow> ('a, 'e) body \<Rightarrow> ('a, 'e) body" where
  "yields vs k = foldr Yield vs k"

text \<open>A frame suspended at a \<open>co_yield v\<close>, and a frame at its final suspend point.\<close>

definition live_frame :: "'a \<Rightarrow> ('a, 'e) body \<Rightarrow> ('a, 'e) frame" where
  "live_frame v b = \<lparr>promise = \<lparr>mValue = Value v\<rparr>, point = Suspended b\<rparr>"

definition final_frame :: "('a, 'e) frame" where
  "final_frame = \<lparr>promise = \<lparr>mValue = Monostate\<rparr>, point = FinalSuspend\<rparr>"

section \<open>Properties\<close>

subsection \<open>Running a body and traversing it\<close>

lemma traverse_from_end:
  "traverse_from (GeneratorIterator None) g s = Inr ([], GeneratorIterator None, s)"
  by (simp add: traverse_from.simps Generator_end_def operator_neq_def operator_eq_def)

lemma run_value:
  "run b \<lparr>mValue = x\<rparr> =
     Some (case b of Yield v k \<Rightarrow> live_frame v k | _ \<Rightarrow> final_frame)"
  by (cases b)
     (simp_all add: yield_value_def final_await_def final_suspend_def return_void_def
        unhandled_exception_def live_frame_def final_frame_def)

lemmas iterator_defs =
  Generator_end_def operator_neq_def operator_eq_def operator_deref_def
  operator_deref_body_def noexcept_def handle_promise_def lookup_def exception_def
  promise_value_def operator_inc_def resume_def finished_def

lemma traverse_from_live:
  "h < length s \<Longrightarrow> s ! h = Some (live_frame v b) \<Longrightarrow>
   traverse_from (GeneratorIterator (Some h)) g s =
     Inr (v # yielded b, GeneratorIterator None, s[h := Some final_frame])"
proof (induction b arbitrary: v s)
  case (Yield w k)
  have "traverse_from (GeneratorIterator (Some h)) g (s[h := Some (live_frame w k)]) =
     Inr (w # yielded k, GeneratorIterator None, s[h := Some final_frame])"
    using Yield.IH [of "s[h := Some (live_frame w k)]" w] Yield.prems by simp
  with Yield.prems show ?case
    by (subst traverse_from.simps) (simp add: iterator_defs run_value live_frame_def)
next
  case Return
  then show ?case
    by (subst traverse_from.simps)
       (simp add: iterator_defs run_value live_frame_def final_frame_def traverse_from_end)
next
  case (Throw e)
  then show ?case
    by (subst traverse_from.simps)
       (simp add: iterator_defs run_value live_frame_def final_frame_def traverse_from_end)
qed

lemma invoke_eq:
  "invoke b s = (Generator (length s), s @ [Some \<lparr>promise = new_promise, point = Suspended b\<rparr>])"
  by (simp add: invoke_def initial_suspend_def get_return_object_def)

lemma begin_fresh:
  "Generator_begin (Generator (length s))
     (s @ [Some \<lparr>promise = new_promise, point = Suspended b\<rparr>]) =
   Inr (case b of
          Yield v k \<Rightarrow> (GeneratorIterator (Some (length s)), s @ [Some (live_frame v k)])
        | _ \<Rightarrow> (GeneratorIterator None, s @ [Some final_frame]))"
  by (cases b)
     (simp_all add: Generator_begin_def resume_def handle_promise_def lookup_def new_promise_def
        run_value finished_def live_frame_def final_frame_def)

lemma traverse_fresh:
  "traverse (Generator (length s))
     (s @ [Some \<lparr>promise = new_promise, point = Suspended b\<rparr>]) =
   Inr (yielded b, GeneratorIterator None, s @ [Some final_frame])"
  by (cases b)
     (simp_all add: traverse_def begin_fresh traverse_from_end traverse_from_live)

lemma yielded_yields_Return: "yielded (yields vs Return) = vs"
  by (induction vs) (simp_all add: yields_def)

lemma yielded_yields_Throw: "yielded (yields vs (Throw e)) = vs"
  by (induction vs) (simp_all add: yields_def)

lemma run_new_promise:
  "run b new_promise =
     Some (case b of Yield v k \<Rightarrow> live_frame v k | _ \<Rightarrow> final_frame)"
  by (simp add: new_promise_def run_value)

lemma sentinel_inc:
  "operator_inc (GeneratorIterator None) s = Inr (GeneratorIterator None, s)"
  by (simp add: operator_inc_def)

subsection \<open>Claims that hold of the code\<close>

text \<open>
  C1. A generator coroutine that yields \<open>v1, ..., vn\<close> and then returns: the loop over
  \<open>begin()\<close>, \<open>operator*\<close>, \<open>operator++\<close> observes exactly \<open>v1, ..., vn\<close> in this
  order, without an error, and stops at an iterator equal to \<open>end()\<close>.
\<close>

theorem full_traversal_observes_yields:
  "case invoke (yields vs Return) s of
     (g, s1) \<Rightarrow>
       (\<exists>it s2. traverse g s1 = Inr (vs, it, s2) \<and> operator_eq it (fst (Generator_end g s2)))"
  by (simp add: invoke_eq traverse_fresh yielded_yields_Return Generator_end_def operator_eq_def)

text \<open>
  C5. A generator coroutine that returns at once, yielding nothing: \<open>begin()\<close> is equal to
  \<open>end()\<close>, and the loop observes no value.
\<close>

theorem immediate_return_begin_is_end:
  "case invoke Return s of
     (g, s1) \<Rightarrow>
       (\<exists>it s2. Generator_begin g s1 = Inr (it, s2)
          \<and> operator_eq it (fst (Generator_end g s2))
          \<and> traverse g s1 = Inr ([], it, s2))"
  by (simp add: invoke_eq begin_fresh traverse_fresh Generator_end_def operator_eq_def)

text \<open>
  C6. An iterator equal to \<open>end()\<close> stays so: \<open>operator++\<close> on it, once or any number of
  times, returns the same iterator and leaves the store of coroutine frames as it was, so
  no coroutine is resumed through it.
\<close>

theorem sentinel_advance_is_noop:
  assumes "operator_eq it (fst (Generator_end g s))"
  shows "operator_inc it s = Inr (it, s) \<and> advance_times n it s = Inr (it, s)"
proof -
  from assms have it: "it = GeneratorIterator None"
    by (cases it) (simp add: operator_eq_def Generator_end_def)
  have "advance_times n (GeneratorIterator None) s = Inr (GeneratorIterator None, s)"
    by (induction n) (simp_all add: sentinel_inc)
  with it show ?thesis
    by (simp add: sentinel_inc)
qed

theorem sentinel_advance_is_noop_witness:
  "operator_eq (GeneratorIterator None)
     (fst (Generator_end (Generator 0) [Some (final_frame :: (nat, nat) frame)]))
   \<and> operator_inc (GeneratorIterator None) [Some (final_frame :: (nat, nat) frame)]
       = Inr (GeneratorIterator None, [Some final_frame])
   \<and> advance_times 3 (GeneratorIterator None) [Some (final_frame :: (nat, nat) frame)]
       = Inr (GeneratorIterator None, [Some final_frame])"
proof -
  have h: "operator_eq (GeneratorIterator None)
     (fst (Generator_end (Generator 0) [Some (final_frame :: (nat, nat) frame)]))"
    by (simp add: operator_eq_def Generator_end_def)
  show ?thesis
    using h sentinel_advance_is_noop [OF h, of 3] by simp
qed

text \<open>
  C7. \<open>end()\<close> leaves the store of coroutine frames as it was; any two results of
  \<open>end()\<close>, of the same generator or of two generators, are equal; and the iterator a
  full traversal of any generator stops at is equal to the \<open>end()\<close> of every generator.
\<close>

theorem end_is_pure_and_unique:
  "snd (Generator_end g s) = s
   \<and> operator_eq (fst (Generator_end g s)) (fst (Generator_end g' s'))
   \<and> (case invoke b s of
        (g0, s1) \<Rightarrow>
          (\<exists>vs it s2. traverse g0 s1 = Inr (vs, it, s2)
             \<and> operator_eq it (fst (Generator_end g0 s2))
             \<and> operator_eq it (fst (Generator_end g' s'))))"
  by (simp add: invoke_eq traverse_fresh Generator_end_def operator_eq_def)

text \<open>
  C8. The promise never holds a value and an exception together: of \<open>exception()\<close> and
  \<open>value()\<close> at most one succeeds, in every state of the promise. \<open>yield_value\<close>
  leaves the value and no exception, \<open>unhandled_exception\<close> the exception and no value,
  \<open>final_suspend\<close> neither.
\<close>

theorem slot_holds_at_most_one:
  "(exception p = None \<or> promise_value p = Inl bad_variant_access)
   \<and> exception (snd (yield_value v p)) = None
   \<and> promise_value (snd (yield_value v p)) = Inr v
   \<and> exception (unhandled_exception e p) = Some e
   \<and> promise_value (unhandled_exception e p) = Inl bad_variant_access
   \<and> exception (snd (final_suspend p)) = None
   \<and> promise_value (snd (final_suspend p)) = Inl bad_variant_access"
  by (simp add: exception_def promise_value_def yield_value_def unhandled_exception_def
        final_suspend_def split: variant.splits)

text \<open>
  C9. Calling the generator coroutine function runs nothing of its body: the new frame
  holds a default-constructed promise and the whole body still to run, and the frames
  already in the store are untouched. \<open>begin()\<close> then runs the body from its start to
  its first suspension.
\<close>

theorem invoke_starts_suspended:
  "case invoke b s of
     (g, s1) \<Rightarrow>
       lookup s1 (generatorCoroutine g) = Some \<lparr>promise = new_promise, point = Suspended b\<rparr>
       \<and> take (length s) s1 = s \<and> length s1 = Suc (length s)
       \<and> (\<exists>it fr. run b new_promise = Some fr
            \<and> Generator_begin g s1 = Inr (it, s @ [Some fr]))"
  by (cases b)
     (simp_all add: invoke_eq begin_fresh lookup_def run_new_promise)

text \<open>
  C10. Once a resumed coroutine is at its final suspend point, whether its body returned
  or threw, \<open>finished()\<close> is true and \<open>exception()\<close> is null: \<open>final_suspend\<close> stores
  \<open>std::monostate\<close> over whatever the promise held, a captured exception included.
\<close>

theorem final_suspend_point_is_finished:
  fixes s :: "('a, 'e) store"
  assumes "resume h s = Inr s'" and "lookup s' h = Some fr" and "point fr = FinalSuspend"
  shows "finished (promise fr) \<and> exception (promise fr) = None
         \<and> finished (snd (final_suspend (unhandled_exception e p)))
         \<and> exception (snd (final_suspend (unhandled_exception e p))) = None"
proof -
  have final: "mValue (promise fr') = Monostate"
    if "run b q = Some fr'" and "point fr' = FinalSuspend"
    for b :: "('a, 'e) body" and q fr'
    using that
    by (induction b arbitrary: q)
       (auto simp: yield_value_def final_await_def final_suspend_def)
  from assms(1) obtain fr0 b where
    "lookup s h = Some fr0" "point fr0 = Suspended b" "s' = s[h := run b (promise fr0)]"
    by (auto simp: resume_def split: option.splits resume_point.splits)
  with assms(2) have "run b (promise fr0) = Some fr"
    by (auto simp: lookup_def split: if_splits)
  from final [OF this assms(3)] show ?thesis
    by (simp add: finished_def exception_def final_suspend_def)
qed

theorem final_suspend_point_is_finished_witness:
  "resume 0 [Some \<lparr>promise = \<lparr>mValue = Value (1::nat)\<rparr>, point = Suspended (Throw (7::nat))\<rparr>]
     = Inr [Some final_frame]
   \<and> lookup [Some (final_frame :: (nat, nat) frame)] 0 = Some final_frame
   \<and> point (final_frame :: (nat, nat) frame) = FinalSuspend
   \<and> finished (promise (final_frame :: (nat, nat) frame))
   \<and> exception (promise (final_frame :: (nat, nat) frame)) = None
   \<and> finished (snd (final_suspend (unhandled_exception (7::nat) \<lparr>mValue = Value (1::nat)\<rparr>)))
   \<and> exception (snd (final_suspend (unhandled_exception (7::nat) \<lparr>mValue = Value (1::nat)\<rparr>)))
       = None"
proof -
  have h1: "resume 0 [Some \<lparr>promise = \<lparr>mValue = Value (1::nat)\<rparr>,
                           point = Suspended (Throw (7::nat))\<rparr>] = Inr [Some final_frame]"
    by (simp add: resume_def lookup_def run_value)
  have h2: "lookup [Some (final_frame :: (nat, nat) frame)] 0 = Some final_frame"
    by (simp add: lookup_def)
  have h3: "point (final_frame :: (nat, nat) frame) = FinalSuspend"
    by (simp add: final_frame_def)
  show ?thesis
    using h1 h2 h3
      final_suspend_point_is_finished [OF h1 h2 h3, where e = "7::nat"
        and p = "\<lparr>mValue = Value (1::nat)\<rparr>"]
    by simp
qed

subsection \<open>Exceptions of the generator coroutine\<close>

text \<open>
  The class comments promise that an exception thrown by the generator coroutine is
  stored in the promise and thrown again by \<open>operator*\<close>. The theorems of this
  subsection evaluate the code on coroutines that throw: \<open>unhandled_exception\<close> stores
  the exception, and \<open>final_suspend\<close>, awaited right after it, stores
  \<open>std::monostate\<close> over it before the caller of \<open>resume()\<close> is back in control.
\<close>

text \<open>
  C2. The coroutine \<open>co_yield 1; co_yield 2; throw 7\<close>: the loop dereferences every
  iterator it passes, observes \<open>1, 2\<close> and ends without any exception; after it the
  promise holds no exception. The exception is lost, not thrown again at a dereference.
\<close>

theorem thrown_exception_never_surfaces:
  "case invoke (Yield (1::nat) (Yield 2 (Throw (7::nat)))) [] of
     (g, s1) \<Rightarrow>
       traverse g s1 = Inr ([1, 2], GeneratorIterator None, [Some final_frame])
       \<and> handle_promise (generatorCoroutine g) [Some (final_frame :: (nat, nat) frame)]
           = Inr \<lparr>mValue = Monostate\<rparr>
       \<and> exception (\<lparr>mValue = Monostate\<rparr> :: (nat, nat) GeneratorPromise) = None"
  using traverse_fresh [of "[]" "Yield (1::nat) (Yield 2 (Throw (7::nat)))"]
  by (simp add: invoke_eq handle_promise_def lookup_def final_frame_def exception_def)

text \<open>
  C3. The coroutine \<open>throw 7\<close>, which throws before it yields: \<open>begin()\<close> returns an
  iterator equal to \<open>end()\<close>, and dereferencing it is undefined behaviour, not the
  exception thrown again.
\<close>

theorem throw_before_yield_begin_is_end:
  "case invoke (Throw (7::nat) :: (nat, nat) body) [] of
     (g, s1) \<Rightarrow>
       Generator_begin g s1 = Inr (GeneratorIterator None, [Some final_frame])
       \<and> operator_eq (GeneratorIterator None)
            (fst (Generator_end g [Some (final_frame :: (nat, nat) frame)]))
       \<and> operator_deref (GeneratorIterator None) [Some (final_frame :: (nat, nat) frame)]
           = Inl UndefinedBehaviour"
  using begin_fresh [of "[]" "Throw (7::nat) :: (nat, nat) body"]
  by (simp add: invoke_eq Generator_end_def operator_eq_def operator_deref_def
        operator_deref_body_def noexcept_def)

text \<open>
  C4. The coroutine \<open>co_yield 1; throw 7\<close>: the first dereference returns \<open>1\<close>; the
  \<open>operator++\<close> after it already returns an iterator equal to \<open>end()\<close>, so there is no
  dereference that throws the exception.
\<close>

theorem yield_then_throw_ends_at_once:
  "case invoke (Yield (1::nat) (Throw (7::nat))) [] of
     (g, s1) \<Rightarrow>
       Generator_begin g s1 = Inr (GeneratorIterator (Some 0), [Some (live_frame 1 (Throw 7))])
       \<and> operator_deref (GeneratorIterator (Some 0)) [Some (live_frame 1 (Throw 7))] = Inr 1
       \<and> operator_inc (GeneratorIterator (Some 0)) [Some (live_frame 1 (Throw 7))]
           = Inr (GeneratorIterator None, [Some final_frame])
       \<and> operator_eq (GeneratorIterator None)
            (fst (Generator_end g [Some (final_frame :: (nat, nat) frame)]))
       \<and> operator_deref (GeneratorIterator None) [Some (final_frame :: (nat, nat) frame)]
           = Inl UndefinedBehaviour"
  using begin_fresh [of "[]" "Yield (1::nat) (Throw (7::nat))"]
  by (simp add: invoke_eq iterator_defs live_frame_def final_frame_def run_value)

end
